theory Spec2Isabelle
  imports Main "HOL-Library.AList"
begin

section \<open>Strings, streams and the operator-visible channel\<close>

text \<open>
  A \<^verbatim>\<open>std::string\<close> is a \<^typ>\<open>string\<close> (a list of bytes, which may hold the
  byte 0). A \<^verbatim>\<open>const char *\<close> argument (the typed text, the engine's line buffer) is
  the list of bytes before its terminator.
\<close>

abbreviation (input) NL :: char where
  "NL \<equiv> CHR 0x0A"

abbreviation (input) NUL :: char where
  "NUL \<equiv> CHR 0x00"

text \<open>\<^verbatim>\<open>s.c_str()\<close> read as a C string: the bytes before the first 0.\<close>

definition c_str :: "string \<Rightarrow> string" where
  "c_str s = takeWhile (\<lambda>c. c \<noteq> NUL) s"

text \<open>\<^verbatim>\<open>strdup\<close> copies a C string.\<close>

definition strdup :: "string \<Rightarrow> string" where
  "strdup s = s"

text \<open>
  \<^verbatim>\<open>s.find(p) != std::string::npos\<close> and \<^verbatim>\<open>strstr(s, p) != nullptr\<close>: \<open>p\<close> occurs in
  \<open>s\<close> as a contiguous block, at any position. The empty \<open>p\<close> occurs in every \<open>s\<close>.
\<close>

fun contains :: "string \<Rightarrow> string \<Rightarrow> bool" where
  "contains [] p = (p = [])"
| "contains (c # cs) p = (take (length p) (c # cs) = p \<or> contains cs p)"

text \<open>\<^verbatim>\<open>std::isspace\<close> in the classic locale, which an \<^verbatim>\<open>istringstream\<close> uses.\<close>

definition isspace :: "char \<Rightarrow> bool" where
  "isspace c = (c = CHR '' '' \<or> c = CHR 0x09 \<or> c = CHR 0x0A \<or> c = CHR 0x0B
                \<or> c = CHR 0x0C \<or> c = CHR 0x0D)"

text \<open>
  \<^verbatim>\<open>std::copy(std::istream_iterator<std::string>(iss), {}, std::back_inserter(inputs))\<close>:
  each extraction skips the leading white space and reads up to the next white space
  or the end of the stream; the copy ends when an extraction finds nothing.
\<close>

function tokens :: "string \<Rightarrow> string list" where
  "tokens s =
     (let s' = dropWhile isspace s
      in if s' = [] then []
         else takeWhile (\<lambda>c. \<not> isspace c) s' # tokens (dropWhile (\<lambda>c. \<not> isspace c) s'))"
  by pat_completeness auto
termination
proof (relation "measure length")
  fix s s' :: string
  assume s': "s' = dropWhile isspace s" and ne: "s' \<noteq> []"
  from ne obtain c cs where c: "s' = c # cs"
    by (auto simp: neq_Nil_conv)
  have "\<not> isspace (hd s')"
    using hd_dropWhile [of isspace s] s' ne by blast
  then have "\<not> isspace c"
    using c by simp
  then have "length (dropWhile (\<lambda>c. \<not> isspace c) s') < length s'"
    using c length_dropWhile_le [of "\<lambda>c. \<not> isspace c" cs] by simp
  moreover have "length s' \<le> length s"
    using s' length_dropWhile_le [of isspace s] by simp
  ultimately show "(dropWhile (\<lambda>c. \<not> isspace c) s', s) \<in> measure length"
    by simp
qed simp

declare tokens.simps [simp del]

text \<open>
  \<^verbatim>\<open>while (std::getline(input, command))\<close> over the content of a file: a line ends at
  a line feed or at the end of the file, and a read that finds the stream at its end
  fails, so a final line feed starts no further line.
\<close>

function getlines :: "string \<Rightarrow> string list" where
  "getlines s =
     (if s = [] then []
      else takeWhile (\<lambda>c. c \<noteq> NL) s # getlines (drop 1 (dropWhile (\<lambda>c. c \<noteq> NL) s)))"
  by pat_completeness auto
termination
proof (relation "measure length")
  fix s :: string
  assume "s \<noteq> []"
  then show "(drop 1 (dropWhile (\<lambda>c. c \<noteq> NL) s), s) \<in> measure length"
    using length_dropWhile_le [of "\<lambda>c. c \<noteq> NL" s] by (cases s) auto
qed simp

declare getlines.simps [simp del]

text \<open>\<^verbatim>\<open>std::cout << counter\<close> for an \<^verbatim>\<open>int\<close>: its decimal digits, with a sign.\<close>

fun digits :: "nat \<Rightarrow> string" where
  "digits n =
     (if n < 10 then [char_of (48 + n)]
      else digits (n div 10) @ [char_of (48 + n mod 10)])"

declare digits.simps [simp del]

definition show_int :: "int \<Rightarrow> string" where
  "show_int i = (if i < 0 then CHR ''-'' # digits (nat (- i)) else digits (nat i))"

text \<open>
  The process's surroundings: what has been written to \<^verbatim>\<open>std::cout\<close>, the files that
  exist, and the names of the files the program has tried to open, in order.
\<close>

record world =
  cout :: string
  files :: "string \<Rightarrow> string option"
  opened :: "string list"

definition print :: "string \<Rightarrow> world \<Rightarrow> world" where
  "print s w = w\<lparr>cout := cout w @ s\<rparr>"

text \<open>\<^verbatim>\<open>std::ifstream input(filename)\<close>: the content, or nothing when the open fails.\<close>

definition ifstream :: "string \<Rightarrow> world \<Rightarrow> string option \<times> world" where
  "ifstream filename w = (files w filename, w\<lparr>opened := opened w @ [filename]\<rparr>)"

section \<open>The declarations of Console.hpp\<close>

text \<open>
  Modelled from the spec: \<^verbatim>\<open>enum ReturnCode\<close> and the sentinel \<^verbatim>\<open>COMPLETE_FILE\<close> are
  declared in Console.hpp, which is not among the sources. The spec (section 6) fixes the
  literal values \<open>Ok = 0\<close> and \<open>Error = 1\<close>. Of \<open>Quit\<close> it says only that it is a distinct
  non-zero code, and of the sentinel only that it is a distinguished hint, so both are
  parameters of the model.
\<close>

definition Ok :: int where
  "Ok = 0"

definition Error :: int where
  "Error = 1"

record header =
  Quit :: int
  COMPLETE_FILE :: string

section \<open>Console instances\<close>

text \<open>
  A handler is a \<^verbatim>\<open>std::function<int(const Arguments &)>\<close>. The four handlers the
  constructor installs capture \<^verbatim>\<open>this\<close> and are named here; they are given their
  instance when they are called. A handler of the host application maps the tokens and
  the surroundings to a code and new surroundings.
\<close>

type_synonym Arguments = "string list"

datatype handler =
    help_handler
  | run_handler
  | quit_handler
  | exit_handler
  | host_handler "Arguments \<Rightarrow> world \<Rightarrow> int \<times> world"

text \<open>\<^verbatim>\<open>CommandFunction\<close>: the handler with the argument hints of the command.\<close>

type_synonym CommandFunction = "handler \<times> string list"

text \<open>A snapshot of the engine's history (\<^verbatim>\<open>HISTORY_STATE\<close>): its entries, oldest first.\<close>

type_synonym HISTORY_STATE = "string list"

text \<open>
  \<^verbatim>\<open>struct Console::Impl\<close>, reached through \<^verbatim>\<open>pimpl_\<close>: the fields \<^verbatim>\<open>greeting_\<close>,
  \<^verbatim>\<open>commands_\<close> and \<^verbatim>\<open>history_\<close>. The \<^verbatim>\<open>unordered_map\<close> is the list of its entries in the
  order its iterators visit them, with no key twice; \<open>pimpl_history = None\<close> is the null pointer.
\<close>

record Impl =
  pimpl_greeting :: string
  pimpl_commands :: "(string \<times> CommandFunction) list"
  pimpl_history :: "HISTORY_STATE option"

text \<open>
  The constructor. An \<^verbatim>\<open>unordered_map\<close> leaves the place of a new key to the
  implementation; \<^const>\<open>AList.update\<close> puts it last and replaces the value of a key
  that is there in place.
\<close>

definition Console :: "header \<Rightarrow> string \<Rightarrow> Impl" where
  "Console hdr greeting =
     \<lparr>pimpl_greeting = greeting,
      pimpl_commands =
        AList.update ''exit'' (exit_handler, [])
          (AList.update ''quit'' (quit_handler, [])
            (AList.update ''run'' (run_handler, [COMPLETE_FILE hdr])
              (AList.update ''help'' (help_handler, []) []))),
      pimpl_history = None\<rparr>"

definition registerCommand :: "string \<Rightarrow> CommandFunction \<Rightarrow> Impl \<Rightarrow> Impl" where
  "registerCommand s f this = this\<lparr>pimpl_commands := AList.update s f (pimpl_commands this)\<rparr>"

definition getRegisteredCommands :: "Impl \<Rightarrow> string list" where
  "getRegisteredCommands this = map fst (pimpl_commands this)"

definition setGreeting :: "string \<Rightarrow> Impl \<Rightarrow> Impl" where
  "setGreeting greeting this = this\<lparr>pimpl_greeting := greeting\<rparr>"

definition getGreeting :: "Impl \<Rightarrow> string" where
  "getGreeting this = pimpl_greeting this"

section \<open>Dispatcher and Script Runner\<close>

text \<open>
  \<^verbatim>\<open>executeCommand\<close> calls a handler, the \<open>run\<close> handler calls \<^verbatim>\<open>executeFile\<close>, and
  \<^verbatim>\<open>executeFile\<close> calls \<^verbatim>\<open>executeCommand\<close> on every line: a script that runs itself
  never returns. The first argument bounds how many script files may be open inside one
  another; the result \<open>None\<close> says that the bound was reached.

  The Dispatcher passes a handler all the tokens, the command name first, so the
  \<^verbatim>\<open>input[0]\<close> of the \<open>run\<close> handler's usage line is read from a list that is not empty.

  \<^verbatim>\<open>command[0]\<close> of an empty \<^verbatim>\<open>std::string\<close> is its terminator, the byte 0.
  The counter is an \<^verbatim>\<open>int\<close>; it is an unbounded integer here, which is the same for
  every file of fewer than \<open>2^31\<close> lines.
\<close>

definition index0 :: "string \<Rightarrow> char" where
  "index0 s = (case s of [] \<Rightarrow> NUL | c # _ \<Rightarrow> c)"

function executeCommand :: "nat \<Rightarrow> header \<Rightarrow> Impl \<Rightarrow> string \<Rightarrow> world \<Rightarrow> int option \<times> world"
  and invoke :: "nat \<Rightarrow> header \<Rightarrow> Impl \<Rightarrow> handler \<Rightarrow> Arguments \<Rightarrow> world \<Rightarrow> int option \<times> world"
  and executeFile :: "nat \<Rightarrow> header \<Rightarrow> Impl \<Rightarrow> string \<Rightarrow> world \<Rightarrow> int option \<times> world"
  and executeFile_loop ::
    "nat \<Rightarrow> header \<Rightarrow> Impl \<Rightarrow> string list \<Rightarrow> int \<Rightarrow> world \<Rightarrow> int option \<times> world"
where
  "executeCommand n hdr this command w =
     (let inputs = tokens command
      in if length inputs = 0 then (Some Ok, w)
         else (case map_of (pimpl_commands this) (inputs ! 0) of
                 Some (f, hints) \<Rightarrow> invoke n hdr this f inputs w
               | None \<Rightarrow>
                   (Some Error,
                    print (''Command '' @ [CHR 0x27] @ inputs ! 0 @ [CHR 0x27]
                           @ '' not found.'' @ [NL]) w)))"
| "invoke n hdr this help_handler input w =
     (Some Ok,
      print (concat (map (\<lambda>command. [CHR 0x09] @ command @ [NL]) (getRegisteredCommands this)))
        (print (''Available commands are:'' @ [NL]) w))"
| "invoke n hdr this run_handler input w =
     (if length input < 2
      then (Some 1, print (''Usage: '' @ input ! 0 @ '' script_filename'' @ [NL]) w)
      else (case n of
              0 \<Rightarrow> (None, w)
            | Suc m \<Rightarrow> executeFile m hdr this (input ! 1) w))"
| "invoke n hdr this quit_handler input w = (Some (Quit hdr), w)"
| "invoke n hdr this exit_handler input w = (Some (Quit hdr), w)"
| "invoke n hdr this (host_handler g) input w = (case g input w of (r, w') \<Rightarrow> (Some r, w'))"
| "executeFile n hdr this filename w =
     (case ifstream filename w of
        (None, w') \<Rightarrow>
          (Some Error, print (''Could not find the specified file to execute.'' @ [NL]) w')
      | (Some content, w') \<Rightarrow> executeFile_loop n hdr this (getlines content) 0 w')"
| "executeFile_loop n hdr this [] counter w = (Some Ok, w)"
| "executeFile_loop n hdr this (command # rest) counter w =
     (if index0 command = CHR ''#'' then executeFile_loop n hdr this rest counter w
      else (case executeCommand n hdr this command
                   (print (''['' @ show_int counter @ ''] '' @ command @ [NL]) w) of
              (None, w') \<Rightarrow> (None, w')
            | (Some result, w') \<Rightarrow>
                if result \<noteq> 0 then (Some result, w')
                else executeFile_loop n hdr this rest (counter + 1) (print [NL] w')))"

  by pat_completeness auto
termination
  by (relation "inv_image (less_than <*lex*> less_than <*lex*> less_than)
      (\<lambda>x. case x of
          Inl (Inl (n, hdr, this, command, w)) \<Rightarrow> (n, 1::nat, 0::nat)
        | Inl (Inr (n, hdr, this, f, input, w)) \<Rightarrow> (n, 0, 0)
        | Inr (Inl (n, hdr, this, filename, w)) \<Rightarrow> (n, 3, 0)
        | Inr (Inr (n, hdr, this, ls, counter, w)) \<Rightarrow> (n, 2, length ls))") auto

declare executeCommand.simps [simp del]
declare executeFile.simps [simp del]

section \<open>The shared engine and the reservation of it\<close>

text \<open>
  The state of the process. The line-editing engine is an external library; of it the
  state holds the live history (its entries, oldest first), the line buffer
  \<^verbatim>\<open>rl_line_buffer\<close> and the flag \<^verbatim>\<open>rl_attempted_completion_over\<close>.
  \<^verbatim>\<open>history_get_history_state\<close> and \<^verbatim>\<open>history_set_history_state\<close> are the spec's
  \<open>getHistorySnapshot\<close> and \<open>setHistorySnapshot\<close>: a snapshot is the history's entries
  at the time it is taken. A \<^verbatim>\<open>Console *\<close> is an address, and \<open>heap\<close> gives the
  instance at each address. The two variables at namespace scope are
  \<open>currentConsole\<close> (\<open>None\<close> is the null pointer) and \<open>emptyHistory\<close>; the function-local
  statics of the two completion iterators are \<open>command_it\<close> and \<open>argument_it\<close>, each the
  part of its container from the iterator's position to the end.
  \<^verbatim>\<open>readLine\<close> reserves its instance and then records every line that is not empty with
  \<^verbatim>\<open>add_history\<close>, which appends the line to the live history.
\<close>

type_synonym addr = nat

record process =
  currentConsole :: "addr option"
  emptyHistory :: HISTORY_STATE
  heap :: "addr \<Rightarrow> Impl"
  the_history :: "string list"
  rl_line_buffer :: string
  rl_attempted_completion_over :: int
  command_it :: "(string \<times> CommandFunction) list"
  argument_it :: "string list"

definition history_get_history_state :: "process \<Rightarrow> HISTORY_STATE" where
  "history_get_history_state p = the_history p"

definition history_set_history_state :: "HISTORY_STATE \<Rightarrow> process \<Rightarrow> process" where
  "history_set_history_state h p = p\<lparr>the_history := h\<rparr>"

definition add_history :: "string \<Rightarrow> process \<Rightarrow> process" where
  "add_history line p = p\<lparr>the_history := the_history p @ [line]\<rparr>"

definition saveState :: "addr \<Rightarrow> process \<Rightarrow> process" where
  "saveState this p =
     p\<lparr>heap := (heap p)(this := (heap p this)\<lparr>pimpl_history := Some (history_get_history_state p)\<rparr>)\<rparr>"

definition reserveConsole :: "addr \<Rightarrow> process \<Rightarrow> process" where
  "reserveConsole this p =
     (if currentConsole p = Some this then p
      else
        let p1 = (case currentConsole p of Some other \<Rightarrow> saveState other p | None \<Rightarrow> p);
            p2 = (case pimpl_history (heap p1 this) of
                    None \<Rightarrow> history_set_history_state (emptyHistory p1) p1
                  | Some h \<Rightarrow> history_set_history_state h p1)
        in p2\<lparr>currentConsole := Some this\<rparr>)"

section \<open>Completion Resolver\<close>

text \<open>
  What the two iterators can do other than return: \<^verbatim>\<open>vector::at\<close> throws
  \<^verbatim>\<open>std::out_of_range\<close>, and the step \<^verbatim>\<open>it + 1\<close> from an iterator that is at the end
  of its vector is undefined.
\<close>

datatype error = out_of_range | invalid_iterator

definition vector_at :: "'a list \<Rightarrow> nat \<Rightarrow> error + 'a" where
  "vector_at xs i = (if i < length xs then Inr (xs ! i) else Inl out_of_range)"

text \<open>
  The loop of \<^verbatim>\<open>argumentIterator\<close>. The iterator \<open>it\<close> is the part of \<open>params\<close> from its
  position on, so \<^verbatim>\<open>it + 1 != params.end()\<close> says that an element follows, \<^verbatim>\<open>++it\<close>
  drops the first element and \<^verbatim>\<open>*it\<close> is the first element.
\<close>

fun argument_loop ::
  "string \<Rightarrow> string \<Rightarrow> string list \<Rightarrow> error + (string option \<times> string list)"
where
  "argument_loop line argName [] = Inl invalid_iterator"
| "argument_loop line argName [x] = Inr (None, [x])"
| "argument_loop line argName (x # y # ys) =
     (if contains line (c_str y) then argument_loop line argName (y # ys)
      else if contains y argName then Inr (Some (strdup (c_str y)), y # ys)
      else argument_loop line argName (y # ys))"

definition argumentIterator ::
  "header \<Rightarrow> string \<Rightarrow> int \<Rightarrow> process \<Rightarrow> error + (string option \<times> process)"
where
  "argumentIterator hdr text state p =
     (case currentConsole p of
        None \<Rightarrow> Inr (None, p)
      | Some cur \<Rightarrow>
          let results = tokens (rl_line_buffer p)
          in (case vector_at results 0 of
                Inl e \<Rightarrow> Inl e
              | Inr commandName \<Rightarrow>
                  let argName = (if length results > 1 then results ! 1 else [])
                  in (case map_of (pimpl_commands (heap p cur)) commandName of
                        None \<Rightarrow> Inr (None, p)
                      | Some (f, params) \<Rightarrow>
                          (case vector_at params 0 of
                             Inl e \<Rightarrow> Inl e
                           | Inr first \<Rightarrow>
                               if first = COMPLETE_FILE hdr then Inr (None, p)
                               else
                                 let p1 = p\<lparr>rl_attempted_completion_over := 1\<rparr>;
                                     it = (if state = 0 then params else argument_it p1)
                                 in (case argument_loop (rl_line_buffer p1) argName it of
                                       Inl e \<Rightarrow> Inl e
                                     | Inr (r, it') \<Rightarrow> Inr (r, p1\<lparr>argument_it := it'\<rparr>))))))"

text \<open>The loop of \<^verbatim>\<open>commandIterator\<close>, its iterator again the entries still to visit.\<close>

fun command_loop ::
  "string \<Rightarrow> (string \<times> CommandFunction) list
     \<Rightarrow> string option \<times> (string \<times> CommandFunction) list"
where
  "command_loop text [] = (None, [])"
| "command_loop text (entry # rest) =
     (if contains (fst entry) text then (Some (strdup (c_str (fst entry))), rest)
      else command_loop text rest)"

definition commandIterator ::
  "string \<Rightarrow> int \<Rightarrow> process \<Rightarrow> error + (string option \<times> process)"
where
  "commandIterator text state p =
     (case currentConsole p of
        None \<Rightarrow> Inr (None, p)
      | Some cur \<Rightarrow>
          let commands = pimpl_commands (heap p cur);
              it = (if state = 0 then commands else command_it p)
          in (case command_loop text it of (r, it') \<Rightarrow> Inr (r, p\<lparr>command_it := it'\<rparr>)))"

text \<open>
  The engine's \<^verbatim>\<open>rl_completion_matches\<close> calls the iterator it is given with \<open>state\<close>
  0, 1, 2, ... until the iterator returns the null pointer, and collects what the calls
  return. The first argument bounds the number of calls (\<open>None\<close>: the bound was reached);
  an exception of the iterator ends the collection.
\<close>

fun rl_completion_matches ::
  "nat \<Rightarrow> string \<Rightarrow> (string \<Rightarrow> int \<Rightarrow> process \<Rightarrow> error + (string option \<times> process))
     \<Rightarrow> int \<Rightarrow> process \<Rightarrow> (error + (string list \<times> process)) option"
where
  "rl_completion_matches 0 text entry state p = None"
| "rl_completion_matches (Suc n) text entry state p =
     (case entry text state p of
        Inl e \<Rightarrow> Some (Inl e)
      | Inr (None, p') \<Rightarrow> Some (Inr ([], p'))
      | Inr (Some m, p') \<Rightarrow>
          (case rl_completion_matches n text entry (state + 1) p' of
             None \<Rightarrow> None
           | Some (Inl e) \<Rightarrow> Some (Inl e)
           | Some (Inr (ms, p'')) \<Rightarrow> Some (Inr (m # ms, p''))))"

definition getCommandCompletions ::
  "nat \<Rightarrow> header \<Rightarrow> string \<Rightarrow> int \<Rightarrow> process \<Rightarrow> (error + (string list \<times> process)) option"
where
  "getCommandCompletions n hdr text start p =
     (if start = 0 then rl_completion_matches n text commandIterator 0 p
      else rl_completion_matches n text (argumentIterator hdr) 0 p)"

section \<open>Concrete instances\<close>

text \<open>
  A header, surroundings with one script file, and a process right after its start, with
  a freshly constructed instance at every address: the inputs at which the theorems
  below are instantiated.
\<close>

definition example_header :: header where
  "example_header = \<lparr>Quit = - 1, COMPLETE_FILE = ''%file''\<rparr>"

definition example_script :: string where
  "example_script = ''help'' @ [NL] @ ''#comment'' @ [NL] @ ''quit'' @ [NL] @ ''help'' @ [NL]"

definition example_world :: world where
  "example_world = \<lparr>cout = [], files = [''script'' \<mapsto> example_script], opened = []\<rparr>"

definition example_process :: process where
  "example_process =
     \<lparr>currentConsole = None, emptyHistory = [], heap = (\<lambda>_. Console example_header ''> ''),
      the_history = [], rl_line_buffer = [], rl_attempted_completion_over = 0,
      command_it = [], argument_it = []\<rparr>"

text \<open>A process whose current instance has the given names registered, in that order.\<close>

definition example_registry :: "string list \<Rightarrow> process" where
  "example_registry names =
     example_process
       \<lparr>currentConsole := Some 0,
        heap := (\<lambda>_. \<lparr>pimpl_greeting = ''> '',
                      pimpl_commands = map (\<lambda>name. (name, (quit_handler, []))) names,
                      pimpl_history = None\<rparr>)\<rparr>"



section \<open>Facts about strings and lists\<close>

lemma contains_iff: "contains s p \<longleftrightarrow> (\<exists>a b. s = a @ p @ b)"
proof (induction s)
  case Nil
  then show ?case by auto
next
  case (Cons c cs)
  show ?case
  proof
    assume "contains (c # cs) p"
    then consider "take (length p) (c # cs) = p" | "contains cs p" by auto
    then show "\<exists>a b. c # cs = a @ p @ b"
    proof cases
      case 1
      then have "c # cs = [] @ p @ drop (length p) (c # cs)"
        by (metis append_Nil append_take_drop_id)
      then show ?thesis by blast
    next
      case 2
      then obtain a b where "cs = a @ p @ b" using Cons.IH by auto
      then have "c # cs = (c # a) @ p @ b" by simp
      then show ?thesis by blast
    qed
  next
    assume "\<exists>a b. c # cs = a @ p @ b"
    then obtain a b where ab: "c # cs = a @ p @ b" by auto
    show "contains (c # cs) p"
    proof (cases a)
      case Nil
      then have "take (length p) (c # cs) = p" using ab by simp
      then show ?thesis by simp
    next
      case (Cons x a')
      then have "cs = a' @ p @ b" using ab by simp
      then have "contains cs p" using Cons.IH by blast
      then show ?thesis by simp
    qed
  qed
qed

lemma c_str_id: "NUL \<notin> set s \<Longrightarrow> c_str s = s"
  by (auto simp: c_str_def takeWhile_eq_all_conv)

lemma tokens_Nil_iff: "tokens s = [] \<longleftrightarrow> (\<forall>c\<in>set s. isspace c)"
  by (subst tokens.simps) (simp add: Let_def dropWhile_eq_Nil_conv)

lemma filter_dropWhile_not: "filter P (dropWhile (\<lambda>x. \<not> P x) xs) = filter P xs"
  by (induction xs) auto

lemma dropWhile_not_Nil_filter: "dropWhile (\<lambda>x. \<not> P x) xs = [] \<Longrightarrow> filter P xs = []"
  by (induction xs) (auto split: if_splits)

lemma dropWhile_not_Cons_filter:
  "dropWhile (\<lambda>x. \<not> P x) xs = y # ys \<Longrightarrow> filter P xs = y # filter P ys \<and> length ys < length xs"
proof -
  assume d: "dropWhile (\<lambda>x. \<not> P x) xs = y # ys"
  have "P y"
    using hd_dropWhile [of "\<lambda>x. \<not> P x" xs] d by simp
  moreover have "filter P xs = filter P (y # ys)"
    using filter_dropWhile_not [of P xs] d by simp
  moreover have "length (y # ys) \<le> length xs"
    using length_dropWhile_le [of "\<lambda>x. \<not> P x" xs] d by simp
  ultimately show ?thesis by simp
qed

section \<open>The loops of the two iterators\<close>

lemma command_loop_none:
  "dropWhile (\<lambda>e. \<not> contains (fst e) text) es = [] \<Longrightarrow> command_loop text es = (None, [])"
  by (induction es) (auto split: if_splits)

lemma command_loop_some:
  "dropWhile (\<lambda>e. \<not> contains (fst e) text) es = e # r
   \<Longrightarrow> command_loop text es = (Some (strdup (c_str (fst e))), r)"
  by (induction es) (auto split: if_splits)

lemma command_matches:
  "currentConsole q = Some cur \<Longrightarrow> 0 \<le> st
   \<Longrightarrow> es = (if st = 0 then pimpl_commands (heap q cur) else command_it q)
   \<Longrightarrow> length es < n
   \<Longrightarrow> rl_completion_matches n text commandIterator st q =
         Some (Inr (map (\<lambda>e. strdup (c_str (fst e))) (filter (\<lambda>e. contains (fst e) text) es),
                    q\<lparr>command_it := []\<rparr>))"
proof (induction n arbitrary: st q es)
  case 0
  then show ?case by simp
next
  case (Suc n)
  let ?P = "\<lambda>e. contains (fst e) text"
  have it: "commandIterator text st q =
      (case command_loop text es of (r, it') \<Rightarrow> Inr (r, q\<lparr>command_it := it'\<rparr>))"
    using Suc.prems(1,3) by (simp add: commandIterator_def)
  show ?case
  proof (cases "dropWhile (\<lambda>e. \<not> ?P e) es")
    case Nil
    then have "filter ?P es = []"
      by (rule dropWhile_not_Nil_filter)
    moreover from Nil have "command_loop text es = (None, [])"
      by (rule command_loop_none)
    then have "commandIterator text st q = Inr (None, q\<lparr>command_it := []\<rparr>)"
      unfolding it by simp
    ultimately show ?thesis by simp
  next
    case (Cons e r)
    then have f: "filter ?P es = e # filter ?P r" and len: "length r < length es"
      using dropWhile_not_Cons_filter [of ?P es e r] by simp_all
    let ?q = "q\<lparr>command_it := r\<rparr>"
    from Cons have "command_loop text es = (Some (strdup (c_str (fst e))), r)"
      by (rule command_loop_some)
    then have call: "commandIterator text st q = Inr (Some (strdup (c_str (fst e))), ?q)"
      unfolding it by simp
    have "rl_completion_matches n text commandIterator (st + 1) ?q =
        Some (Inr (map (\<lambda>e. strdup (c_str (fst e))) (filter ?P r), ?q\<lparr>command_it := []\<rparr>))"
    proof (rule Suc.IH)
      show "currentConsole ?q = Some cur" using Suc.prems(1) by simp
      show "0 \<le> st + 1" using Suc.prems(2) by simp
      show "r = (if st + 1 = 0 then pimpl_commands (heap ?q cur) else command_it ?q)"
        using Suc.prems(2) by simp
      show "length r < n" using len Suc.prems(4) by simp
    qed
    then show ?thesis
      using call f by simp
  qed
qed





section \<open>Evaluations used at the concrete instances\<close>

lemma tokens_run: "tokens ''run'' = [''run'']"
  by code_simp

lemma tokens_frobnicate: "tokens ''frobnicate now'' = [''frobnicate'', ''now'']"
  by code_simp

lemma tokens_blank: "tokens ('' '' @ [CHR 0x09]) = []"
  by code_simp

lemma tokens_help: "tokens ''help'' = [''help'']"
  by code_simp

lemma tokens_quit: "tokens ''quit'' = [''quit'']"
  by code_simp

lemma tokens_help_space: "tokens ''help '' = [''help'']"
  by code_simp

lemma tokens_run_sc: "tokens ''run sc'' = [''run'', ''sc'']"
  by code_simp

lemma getlines_example:
  "getlines example_script = [''help'', ''#comment'', ''quit'', ''help'']"
  by code_simp

lemma show_int_0: "show_int 0 = ''0''"
  by code_simp

lemma show_int_1: "show_int 1 = ''1''"
  by code_simp

lemma example_help:
  "executeCommand 0 example_header (Console example_header ''> '') ''help'' w
     = (Some Ok, print (''Available commands are:'' @ [NL] @ [CHR 0x09] @ ''help'' @ [NL]
          @ [CHR 0x09] @ ''run'' @ [NL] @ [CHR 0x09] @ ''quit'' @ [NL]
          @ [CHR 0x09] @ ''exit'' @ [NL]) w)"
  by (simp add: executeCommand.simps tokens_help Console_def getRegisteredCommands_def
      print_def)

lemma example_quit:
  "executeCommand 0 example_header (Console example_header ''> '') ''quit'' w
     = (Some (- 1), w)"
  by (simp add: executeCommand.simps tokens_quit Console_def example_header_def)



section \<open>The registry keeps its keys distinct\<close>

lemma distinct_Console: "distinct (getRegisteredCommands (Console hdr greeting))"
  by (simp add: getRegisteredCommands_def Console_def)

lemma distinct_registerCommand:
  "distinct (getRegisteredCommands this) \<Longrightarrow> distinct (getRegisteredCommands (registerCommand s f this))"
  by (simp add: getRegisteredCommands_def registerCommand_def AList.distinct_update)

section \<open>The loop of the Script Runner\<close>

lemma getlines_empty_line: "getlines (NL # s) = [] # getlines s"
  by (subst getlines.simps) simp

lemma executeCommand_blank: "executeCommand n hdr this [] w = (Some Ok, w)"
  by (simp add: executeCommand.simps tokens_Nil_iff)

lemma getlines_Nil: "getlines [] = []"
  by (subst getlines.simps) simp

lemma executeFile_loop_blank_lines:
  "executeFile_loop n hdr this (replicate m []) counter w
     = (Some Ok,
        w\<lparr>cout := cout w
             @ concat (map (\<lambda>i. ''['' @ show_int (counter + int i) @ ''] '' @ [NL, NL]) [0..<m])\<rparr>)"
proof (induction m arbitrary: counter w)
  case 0
  then show ?case by simp
next
  case (Suc m)
  have upt: "[0..<Suc m] = 0 # map Suc [0..<m]"
    by (simp only: map_Suc_upt upt_conv_Cons [of 0 "Suc m"] zero_less_Suc)
  have "executeFile_loop n hdr this (replicate (Suc m) []) counter w
      = executeFile_loop n hdr this (replicate m []) (counter + 1)
          (print [NL] (print (''['' @ show_int counter @ ''] '' @ [] @ [NL]) w))"
    by (simp add: executeCommand_blank index0_def Ok_def)
  also have "\<dots> = (Some Ok,
        w\<lparr>cout := cout w
             @ concat (map (\<lambda>i. ''['' @ show_int (counter + int i) @ ''] '' @ [NL, NL]) [0..<Suc m])\<rparr>)"
    unfolding Suc.IH upt by (simp add: print_def comp_def algebra_simps del: upt_Suc)
  finally show ?case .
qed

lemma executeFile_loop_filter:
  "executeFile_loop n hdr this ls k w
     = executeFile_loop n hdr this (filter (\<lambda>l. index0 l \<noteq> CHR ''#'') ls) k w"
  by (induction ls arbitrary: k w) (auto split: prod.splits option.splits)

lemma executeFile_loop_stops:
  "executeFile_loop n hdr this ls k w = (Some r, w') \<Longrightarrow> r \<noteq> Ok
   \<Longrightarrow> \<exists>l k' w0. l \<in> set ls \<and> index0 l \<noteq> CHR ''#''
         \<and> executeCommand n hdr this l (print (''['' @ show_int k' @ ''] '' @ l @ [NL]) w0)
             = (Some r, w')"
proof (induction ls arbitrary: k w)
  case Nil
  then show ?case by (simp add: Ok_def)
next
  case (Cons l ls)
  show ?case
  proof (cases "index0 l = CHR ''#''")
    case True
    then have "executeFile_loop n hdr this ls k w = (Some r, w')"
      using Cons.prems(1) by simp
    from Cons.IH [OF this Cons.prems(2)] show ?thesis
      by auto
  next
    case False
    obtain res w1 where ex:
      "executeCommand n hdr this l (print (''['' @ show_int k @ ''] '' @ l @ [NL]) w) = (res, w1)"
      by (cases "executeCommand n hdr this l (print (''['' @ show_int k @ ''] '' @ l @ [NL]) w)")
    show ?thesis
    proof (cases "res = Some 0")
      case True
      then have "executeFile_loop n hdr this ls (k + 1) (print [NL] w1) = (Some r, w')"
        using Cons.prems(1) False ex by simp
      from Cons.IH [OF this Cons.prems(2)] show ?thesis
        by auto
    next
      case nz: False
      then have "res = Some r \<and> w1 = w'"
        using Cons.prems(1) False ex by (cases res) (auto split: if_splits)
      then show ?thesis
        using ex False by auto
    qed
  qed
qed

section \<open>The claims\<close>

text \<open>
  C1. Reservation isolation. Let \<open>X\<close> and \<open>Y\<close> be two instances that have never been
  reserved (neither is current and neither holds a snapshot), in a process whose empty
  snapshot is empty, as it is when taken at static initialisation. After \<open>X\<close> is reserved
  and the entries \<open>h1\<close>, \<open>h2\<close> are added, \<open>Y\<close> is reserved and \<open>h3\<close> is added, and \<open>X\<close> is
  reserved again, the live history is exactly \<open>[h1, h2]\<close> and the snapshot \<open>Y\<close> holds is
  exactly \<open>[h3]\<close>. Reserving the instance that is current changes nothing.
\<close>

theorem reservation_isolation:
  assumes "X \<noteq> Y"
    and "emptyHistory p = []"
    and "currentConsole p \<noteq> Some X" and "currentConsole p \<noteq> Some Y"
    and "pimpl_history (heap p X) = None" and "pimpl_history (heap p Y) = None"
    and "p' = reserveConsole X (add_history h3 (reserveConsole Y
                (add_history h2 (add_history h1 (reserveConsole X p)))))"
  shows "the_history p' = [h1, h2]
     \<and> pimpl_history (heap p' Y) = Some [h3]
     \<and> currentConsole p' = Some X
     \<and> reserveConsole X p' = p'
     \<and> (currentConsole q = Some Z \<longrightarrow> reserveConsole Z q = q)"
  using assms
  by (auto simp add: reserveConsole_def saveState_def add_history_def Let_def
      history_get_history_state_def history_set_history_state_def split: option.splits)

theorem reservation_isolation_witness:
  "the_history (reserveConsole 0 (add_history ''quit'' (reserveConsole 1
      (add_history ''run script'' (add_history ''help'' (reserveConsole 0 example_process))))))
     = [''help'', ''run script'']
   \<and> pimpl_history (heap (reserveConsole 0 (add_history ''quit'' (reserveConsole 1
      (add_history ''run script'' (add_history ''help'' (reserveConsole 0 example_process)))))) 1)
     = Some [''quit'']"
proof -
  have 1: "(0::nat) \<noteq> 1" by simp
  have 2: "emptyHistory example_process = []"
    by (simp add: example_process_def)
  have 3: "currentConsole example_process \<noteq> Some 0"
    and 4: "currentConsole example_process \<noteq> Some 1"
    by (simp_all add: example_process_def)
  have 5: "pimpl_history (heap example_process 0) = None"
    and 6: "pimpl_history (heap example_process 1) = None"
    by (simp_all add: example_process_def Console_def)
  from reservation_isolation [OF 1 2 3 4 5 6 refl, of "''quit''" "''run script''" "''help''"]
  show ?thesis by simp
qed

text \<open>
  C2, as the code has it. When the line is the name of a command that carries the \<open>run\<close>
  handler and nothing else, the Dispatcher prints the usage line, opens no file and
  returns the literal 1. That code is not zero, and it is the value of \<open>Error\<close>, not a
  code distinct from it.
\<close>

theorem run_without_filename:
  "tokens line = [name] \<Longrightarrow> map_of (pimpl_commands this) name = Some (run_handler, hints)
   \<Longrightarrow> executeCommand n hdr this line w
         = (Some 1, print (''Usage: '' @ name @ '' script_filename'' @ [NL]) w)
       \<and> (1::int) \<noteq> Ok \<and> (1::int) = Error
       \<and> opened (snd (executeCommand n hdr this line w)) = opened w
       \<and> files (snd (executeCommand n hdr this line w)) = files w"
  by (simp add: executeCommand.simps Let_def Ok_def Error_def print_def)

theorem run_without_filename_witness:
  "executeCommand 0 example_header (Console example_header ''> '') ''run'' example_world
     = (Some 1, example_world\<lparr>cout := ''Usage: run script_filename'' @ [NL]\<rparr>)"
  using run_without_filename [of "''run''" "''run''" "Console example_header ''> ''"
      "[COMPLETE_FILE example_header]" 0 example_header example_world]
  by (simp add: tokens_run Console_def print_def example_world_def)

text \<open>
  C2 as stated fails: for the line \<open>run\<close> the built-in handler's code is not distinct
  from \<open>Error\<close>.
\<close>

theorem run_without_filename_counterexample:
  "\<not> (fst (executeCommand 0 example_header (Console example_header ''> '') ''run'' example_world)
        \<noteq> Some Error)"
  by (simp add: executeCommand.simps tokens_run Console_def Let_def Error_def)




text \<open>
  C4. When the hints of the command that the line buffer starts with begin with the
  filesystem sentinel, every call of the argument iterator, for every typed text and
  every \<open>state\<close>, returns no match and leaves the process as it was; so the argument phase
  collects no matches.
\<close>

theorem argumentIterator_complete_file:
  assumes "currentConsole p = Some cur"
    and "tokens (rl_line_buffer p) = name # rest"
    and "map_of (pimpl_commands (heap p cur)) name = Some (f, COMPLETE_FILE hdr # hints)"
  shows "argumentIterator hdr text state p = Inr (None, p)
     \<and> (start \<noteq> 0 \<longrightarrow> getCommandCompletions (Suc n) hdr text start p = Some (Inr ([], p)))"
proof -
  have "argumentIterator hdr text state p = Inr (None, p)" for state
    using assms by (simp add: argumentIterator_def vector_at_def Let_def)
  then show ?thesis
    by (simp add: getCommandCompletions_def)
qed

theorem argumentIterator_complete_file_witness:
  "argumentIterator example_header ''sc'' 0
      ((reserveConsole 0 example_process)\<lparr>rl_line_buffer := ''run sc''\<rparr>)
     = Inr (None, (reserveConsole 0 example_process)\<lparr>rl_line_buffer := ''run sc''\<rparr>)
   \<and> getCommandCompletions 1 example_header ''sc'' 4
      ((reserveConsole 0 example_process)\<lparr>rl_line_buffer := ''run sc''\<rparr>)
     = Some (Inr ([], (reserveConsole 0 example_process)\<lparr>rl_line_buffer := ''run sc''\<rparr>))"
proof -
  let ?p = "(reserveConsole 0 example_process)\<lparr>rl_line_buffer := ''run sc''\<rparr>"
  have 1: "currentConsole ?p = Some 0"
    by (simp add: reserveConsole_def example_process_def Let_def Console_def
        history_set_history_state_def)
  have 2: "tokens (rl_line_buffer ?p) = ''run'' # [''sc'']"
    by (simp add: tokens_run_sc)
  have 3: "map_of (pimpl_commands (heap ?p 0)) ''run''
      = Some (run_handler, COMPLETE_FILE example_header # [])"
    by (simp add: reserveConsole_def example_process_def Let_def Console_def
        history_set_history_state_def)
  from argumentIterator_complete_file [OF 1 2 3, of "''sc''" 0 4 0]
  show ?thesis by simp
qed

text \<open>
  C5. Command-name phase (start offset 0). With an instance current, the successive
  calls return, one per call and in the registry's enumeration order, exactly the
  registered names that contain the typed text at any position, each as a C string, and
  then no match; the names of a registry are distinct, so each is returned once. With no
  instance current, the iterator returns no match at once.
\<close>

theorem commandIterator_matches:
  "(currentConsole p = Some cur \<and> length (getRegisteredCommands (heap p cur)) < n \<longrightarrow>
      getCommandCompletions n hdr text 0 p =
        Some (Inr (map (\<lambda>name. strdup (c_str name))
                     (filter (\<lambda>name. contains name text) (getRegisteredCommands (heap p cur))),
                   p\<lparr>command_it := []\<rparr>)))
   \<and> (distinct (getRegisteredCommands (heap p cur)) \<longrightarrow>
        distinct (filter (\<lambda>name. contains name text) (getRegisteredCommands (heap p cur))))
   \<and> (currentConsole p = None \<longrightarrow>
        commandIterator text state p = Inr (None, p)
        \<and> getCommandCompletions (Suc n) hdr text 0 p = Some (Inr ([], p)))"
proof -
  have "getCommandCompletions n hdr text 0 p =
        Some (Inr (map (\<lambda>name. strdup (c_str name))
                     (filter (\<lambda>name. contains name text) (getRegisteredCommands (heap p cur))),
                   p\<lparr>command_it := []\<rparr>))"
    if cur: "currentConsole p = Some cur"
      and len: "length (getRegisteredCommands (heap p cur)) < n"
  proof -
    have "rl_completion_matches n text commandIterator 0 p =
        Some (Inr (map (\<lambda>e. strdup (c_str (fst e)))
                     (filter (\<lambda>e. contains (fst e) text) (pimpl_commands (heap p cur))),
                   p\<lparr>command_it := []\<rparr>))"
      using cur len by (intro command_matches) (simp_all add: getRegisteredCommands_def)
    then show ?thesis
      by (simp add: getCommandCompletions_def getRegisteredCommands_def filter_map comp_def)
  qed
  moreover have "commandIterator text state p = Inr (None, p)
        \<and> getCommandCompletions (Suc n) hdr text 0 p = Some (Inr ([], p))"
    if "currentConsole p = None"
    using that by (simp add: getCommandCompletions_def commandIterator_def)
  ultimately show ?thesis
    by simp
qed

theorem commandIterator_matches_witness:
  "getCommandCompletions 3 example_header ''e'' 0 (example_registry [''help'', ''exit''])
     = Some (Inr ([''help'', ''exit''], example_registry [''help'', ''exit'']))
   \<and> getCommandCompletions 3 example_header ''e'' 0 (example_registry [''quit''])
     = Some (Inr ([], example_registry [''quit'']))"
  using commandIterator_matches [of "example_registry [''help'', ''exit'']" 0 3 example_header "''e''"]
    commandIterator_matches [of "example_registry [''quit'']" 0 3 example_header "''e''"]
  by (simp add: example_registry_def example_process_def getRegisteredCommands_def
      strdup_def c_str_def)

text \<open>
  C6. The Script Runner. A line whose first character is \<open>#\<close> is skipped: the loop goes
  on with the same surroundings and the same sequence number, so nothing is echoed or
  dispatched for it, and a file behaves as the file without its comment lines. Every
  other line is echoed with the sequence number and then dispatched. A result that is
  not \<open>Ok\<close> ends the loop and is returned as it is, with the surroundings the Dispatcher
  left; a result \<open>Ok\<close> makes the loop go on with the next line and the next number. At the
  end of the file the result is \<open>Ok\<close>. A result of the loop that is not \<open>Ok\<close> is always
  the result of dispatching one of the file's lines. The loop of a file that opens starts
  at number 0 on the file's lines.
\<close>

theorem executeFile_loop_steps:
  "(index0 l = CHR ''#'' \<longrightarrow>
      executeFile_loop n hdr this (l # ls) k w = executeFile_loop n hdr this ls k w)
   \<and> (index0 l \<noteq> CHR ''#''
        \<and> executeCommand n hdr this l (print (''['' @ show_int k @ ''] '' @ l @ [NL]) w)
            = (Some r, w')
        \<and> r \<noteq> Ok \<longrightarrow>
      executeFile_loop n hdr this (l # ls) k w = (Some r, w'))
   \<and> (index0 l \<noteq> CHR ''#''
        \<and> executeCommand n hdr this l (print (''['' @ show_int k @ ''] '' @ l @ [NL]) w)
            = (Some Ok, w') \<longrightarrow>
      executeFile_loop n hdr this (l # ls) k w
        = executeFile_loop n hdr this ls (k + 1) (print [NL] w'))
   \<and> executeFile_loop n hdr this [] k w = (Some Ok, w)
   \<and> executeFile_loop n hdr this ls k w
       = executeFile_loop n hdr this (filter (\<lambda>l. index0 l \<noteq> CHR ''#'') ls) k w
   \<and> (executeFile_loop n hdr this ls k w = (Some r, w') \<and> r \<noteq> Ok \<longrightarrow>
        (\<exists>l k' w0. l \<in> set ls \<and> index0 l \<noteq> CHR ''#''
           \<and> executeCommand n hdr this l (print (''['' @ show_int k' @ ''] '' @ l @ [NL]) w0)
               = (Some r, w')))
   \<and> (files w filename = Some content \<longrightarrow>
        executeFile n hdr this filename w
          = executeFile_loop n hdr this (getlines content) 0
              (w\<lparr>opened := opened w @ [filename]\<rparr>))"
proof -
  have "executeFile_loop n hdr this ls k w
      = executeFile_loop n hdr this (filter (\<lambda>l. index0 l \<noteq> CHR ''#'') ls) k w"
    by (rule executeFile_loop_filter)
  moreover have "executeFile_loop n hdr this ls k w = (Some r, w') \<and> r \<noteq> Ok \<longrightarrow>
        (\<exists>l k' w0. l \<in> set ls \<and> index0 l \<noteq> CHR ''#''
           \<and> executeCommand n hdr this l (print (''['' @ show_int k' @ ''] '' @ l @ [NL]) w0)
               = (Some r, w'))"
    using executeFile_loop_stops by blast
  moreover have "files w filename = Some content \<longrightarrow>
        executeFile n hdr this filename w
          = executeFile_loop n hdr this (getlines content) 0
              (w\<lparr>opened := opened w @ [filename]\<rparr>)"
    by (simp add: executeFile.simps ifstream_def)
  moreover have "index0 l = CHR ''#'' \<longrightarrow>
      executeFile_loop n hdr this (l # ls) k w = executeFile_loop n hdr this ls k w"
    by simp
  moreover have "index0 l \<noteq> CHR ''#''
        \<and> executeCommand n hdr this l (print (''['' @ show_int k @ ''] '' @ l @ [NL]) w)
            = (Some r, w')
        \<and> r \<noteq> Ok \<longrightarrow>
      executeFile_loop n hdr this (l # ls) k w = (Some r, w')"
    by (simp add: Ok_def)
  moreover have "index0 l \<noteq> CHR ''#''
        \<and> executeCommand n hdr this l (print (''['' @ show_int k @ ''] '' @ l @ [NL]) w)
            = (Some Ok, w') \<longrightarrow>
      executeFile_loop n hdr this (l # ls) k w
        = executeFile_loop n hdr this ls (k + 1) (print [NL] w')"
    by (simp add: Ok_def)
  moreover have "executeFile_loop n hdr this [] k w = (Some Ok, w)"
    by simp
  ultimately show ?thesis
    by blast
qed

theorem executeFile_loop_steps_witness:
  "executeFile 0 example_header (Console example_header ''> '') ''script'' example_world
     = (Some (Quit example_header),
        example_world
          \<lparr>cout := ''[0] help'' @ [NL] @ ''Available commands are:'' @ [NL]
             @ [CHR 0x09] @ ''help'' @ [NL] @ [CHR 0x09] @ ''run'' @ [NL]
             @ [CHR 0x09] @ ''quit'' @ [NL] @ [CHR 0x09] @ ''exit'' @ [NL] @ [NL]
             @ ''[1] quit'' @ [NL],
           opened := [''script'']\<rparr>)"
proof -
  let ?c = "Console example_header ''> ''"
  let ?w0 = "example_world\<lparr>opened := opened example_world @ [''script'']\<rparr>"
  let ?w1 = "print (''Available commands are:'' @ [NL] @ [CHR 0x09] @ ''help'' @ [NL]
          @ [CHR 0x09] @ ''run'' @ [NL] @ [CHR 0x09] @ ''quit'' @ [NL]
          @ [CHR 0x09] @ ''exit'' @ [NL]) (print (''['' @ show_int 0 @ ''] '' @ ''help'' @ [NL]) ?w0)"
  let ?w2 = "print (''['' @ show_int 1 @ ''] '' @ ''quit'' @ [NL]) (print [NL] ?w1)"
  have "executeFile 0 example_header ?c ''script'' example_world
      = executeFile_loop 0 example_header ?c [''help'', ''#comment'', ''quit'', ''help''] 0 ?w0"
    using executeFile_loop_steps [of _ 0 example_header ?c _ _ example_world _ _ "''script''" example_script]
    by (simp add: getlines_example example_world_def)
  also have "\<dots> = executeFile_loop 0 example_header ?c [''#comment'', ''quit'', ''help''] (0 + 1) (print [NL] ?w1)"
    using executeFile_loop_steps [of "''help''" 0 example_header ?c "[''#comment'', ''quit'', ''help'']" 0 ?w0 _ ?w1]
    by (simp add: example_help index0_def)
  also have "\<dots> = executeFile_loop 0 example_header ?c [''quit'', ''help''] (0 + 1) (print [NL] ?w1)"
    using executeFile_loop_steps [of "''#comment''" 0 example_header ?c "[''quit'', ''help'']" "0 + 1" "print [NL] ?w1"]
    by (simp add: index0_def)
  also have "\<dots> = (Some (- 1), ?w2)"
    using executeFile_loop_steps [of "''quit''" 0 example_header ?c "[''help'']" "0 + 1" "print [NL] ?w1" "- 1" ?w2]
    by (simp add: example_quit index0_def Ok_def)
  finally show ?thesis
    by (simp add: print_def show_int_0 show_int_1 example_header_def example_world_def)
qed

text \<open>
  C7. A line whose first token is not a registered name makes the Dispatcher return
  \<open>Error\<close> after printing a diagnostic that contains the token; a line without tokens
  makes it return \<open>Ok\<close> and print nothing.
\<close>

theorem executeCommand_not_found:
  "(tokens line = name # rest \<and> map_of (pimpl_commands this) name = None \<longrightarrow>
      executeCommand n hdr this line w =
        (Some Error,
         print (''Command '' @ [CHR 0x27] @ name @ [CHR 0x27] @ '' not found.'' @ [NL]) w)
      \<and> contains (''Command '' @ [CHR 0x27] @ name @ [CHR 0x27] @ '' not found.'' @ [NL]) name)
   \<and> (tokens line = [] \<longrightarrow> executeCommand n hdr this line w = (Some Ok, w))"
proof -
  have "''Command '' @ [CHR 0x27] @ name @ [CHR 0x27] @ '' not found.'' @ [NL]
      = (''Command '' @ [CHR 0x27]) @ name @ ([CHR 0x27] @ '' not found.'' @ [NL])"
    by simp
  then have "contains (''Command '' @ [CHR 0x27] @ name @ [CHR 0x27] @ '' not found.'' @ [NL]) name"
    unfolding contains_iff by blast
  then show ?thesis
    by (simp add: executeCommand.simps Let_def)
qed

theorem executeCommand_not_found_witness:
  "executeCommand 0 example_header (Console example_header ''> '') ''frobnicate now'' example_world
     = (Some 1, example_world\<lparr>cout := ''Command '' @ [CHR 0x27] @ ''frobnicate'' @ [CHR 0x27] @ '' not found.'' @ [NL]\<rparr>)
   \<and> executeCommand 0 example_header (Console example_header ''> '') ('' '' @ [CHR 0x09]) example_world
     = (Some 0, example_world)"
  using executeCommand_not_found [of "''frobnicate now''" "''frobnicate''" "[''now'']"
      "Console example_header ''> ''" 0 example_header example_world]
    executeCommand_not_found [of "'' '' @ [CHR 0x09]" "[]" "[]"
      "Console example_header ''> ''" 0 example_header example_world]
  by (simp add: tokens_frobnicate tokens_blank Console_def Error_def Ok_def print_def
      example_world_def del: append.simps)

text \<open>
  C8. After \<open>registerCommand\<close>, looking the name up gives exactly the handler and the
  hints registered; registering a name twice leaves the instance as if only the second
  registration had happened; the name is among the registered names. No name is refused:
  the statement holds for every string.
\<close>

theorem registerCommand_lookup:
  "map_of (pimpl_commands (registerCommand s (h, hints) this)) s = Some (h, hints)
   \<and> registerCommand s (h', hints') (registerCommand s (h, hints) this)
       = registerCommand s (h', hints') this
   \<and> s \<in> set (getRegisteredCommands (registerCommand s (h, hints) this))"
  by (simp add: registerCommand_def getRegisteredCommands_def AList.update_conv'
      AList.update_keys)

text \<open>
  C9 fails on the code. When the hints of the command that the line buffer starts with
  are empty, \<^verbatim>\<open>params.at(0)\<close> throws \<^verbatim>\<open>std::out_of_range\<close>: the argument iterator does
  not return, and the collection of matches ends with the exception. The built-in
  \<open>help\<close>, \<open>quit\<close> and \<open>exit\<close> are registered with empty hints.
\<close>

theorem argumentIterator_empty_hints:
  assumes "currentConsole p = Some cur"
    and "tokens (rl_line_buffer p) = name # rest"
    and "map_of (pimpl_commands (heap p cur)) name = Some (f, [])"
  shows "argumentIterator hdr text state p = Inl out_of_range
     \<and> (start \<noteq> 0 \<longrightarrow> getCommandCompletions (Suc n) hdr text start p = Some (Inl out_of_range))"
proof -
  have "argumentIterator hdr text state p = Inl out_of_range" for state
    using assms by (simp add: argumentIterator_def vector_at_def Let_def)
  then show ?thesis
    by (simp add: getCommandCompletions_def)
qed

theorem argumentIterator_empty_hints_witness:
  "argumentIterator example_header [] 0
      ((reserveConsole 0 example_process)\<lparr>rl_line_buffer := ''help ''\<rparr>) = Inl out_of_range
   \<and> getCommandCompletions 1 example_header [] 5
      ((reserveConsole 0 example_process)\<lparr>rl_line_buffer := ''help ''\<rparr>) = Some (Inl out_of_range)"
proof -
  let ?p = "(reserveConsole 0 example_process)\<lparr>rl_line_buffer := ''help ''\<rparr>"
  have 1: "currentConsole ?p = Some 0"
    by (simp add: reserveConsole_def example_process_def Let_def Console_def
        history_set_history_state_def)
  have 2: "tokens (rl_line_buffer ?p) = ''help'' # []"
    by (simp add: tokens_help_space)
  have 3: "map_of (pimpl_commands (heap ?p 0)) ''help'' = Some (help_handler, [])"
    by (simp add: reserveConsole_def example_process_def Let_def Console_def
        history_set_history_state_def)
  from argumentIterator_empty_hints [OF 1 2 3, of example_header "[]" 0 5 0]
  show ?thesis by simp
qed

text \<open>
  C10. An empty line of a script is not a comment: \<^verbatim>\<open>command[0]\<close> is the terminator of
  the empty string, not \<open>#\<close>. The line is echoed with its sequence number, the Dispatcher
  returns \<open>Ok\<close> for it without printing, and the loop goes on with the next line and the
  next number. A line feed at the start of what is left of a file is such a line. So a
  script of \<open>m\<close> empty lines returns \<open>Ok\<close> after writing, for each line, its number in
  brackets, a space and two line feeds, with the numbers counting up; the line after an
  empty line is echoed with the next number and dispatched, and its result decides as
  for any line; and a file that holds one line feed returns \<open>Ok\<close> after writing the echo
  of line 0.
\<close>

theorem executeFile_loop_empty_line:
  "index0 [] \<noteq> CHR ''#''
   \<and> executeCommand n hdr this [] w' = (Some Ok, w')
   \<and> executeFile_loop n hdr this ([] # rest) counter w
       = executeFile_loop n hdr this rest (counter + 1)
           (print [NL] (print (''['' @ show_int counter @ ''] '' @ [] @ [NL]) w))
   \<and> getlines (NL # s) = [] # getlines s
   \<and> executeFile_loop n hdr this (replicate m []) counter w
       = (Some Ok,
          w\<lparr>cout := cout w
               @ concat (map (\<lambda>i. ''['' @ show_int (counter + int i) @ ''] '' @ [NL, NL])
                          [0..<m])\<rparr>)
   \<and> (index0 l \<noteq> CHR ''#'' \<longrightarrow>
        executeFile_loop n hdr this [[], l] counter w
          = (case executeCommand n hdr this l
                    (w\<lparr>cout := cout w @ ''['' @ show_int counter @ ''] '' @ [NL, NL]
                                @ ''['' @ show_int (counter + 1) @ ''] '' @ l @ [NL]\<rparr>) of
               (None, w1) \<Rightarrow> (None, w1)
             | (Some result, w1) \<Rightarrow>
                 if result \<noteq> Ok then (Some result, w1) else (Some Ok, print [NL] w1)))
   \<and> (files w filename = Some [NL] \<longrightarrow>
        executeFile n hdr this filename w
          = (Some Ok,
             w\<lparr>cout := cout w @ ''[0] '' @ [NL, NL], opened := opened w @ [filename]\<rparr>))"
proof -
  have "executeFile_loop n hdr this ([] # rest) counter w
       = executeFile_loop n hdr this rest (counter + 1)
           (print [NL] (print (''['' @ show_int counter @ ''] '' @ [] @ [NL]) w))"
    by (simp add: executeCommand_blank index0_def Ok_def)
  moreover have "index0 l \<noteq> CHR ''#'' \<longrightarrow>
        executeFile_loop n hdr this [[], l] counter w
          = (case executeCommand n hdr this l
                    (w\<lparr>cout := cout w @ ''['' @ show_int counter @ ''] '' @ [NL, NL]
                                @ ''['' @ show_int (counter + 1) @ ''] '' @ l @ [NL]\<rparr>) of
               (None, w1) \<Rightarrow> (None, w1)
             | (Some result, w1) \<Rightarrow>
                 if result \<noteq> Ok then (Some result, w1) else (Some Ok, print [NL] w1))"
    by (simp add: executeCommand_blank index0_def Ok_def print_def
        split: prod.splits option.splits)
  moreover have "files w filename = Some [NL] \<longrightarrow>
        executeFile n hdr this filename w
          = (Some Ok,
             w\<lparr>cout := cout w @ ''[0] '' @ [NL, NL], opened := opened w @ [filename]\<rparr>)"
    by (simp add: executeFile.simps ifstream_def getlines_empty_line getlines_Nil
        executeCommand_blank index0_def Ok_def print_def show_int_0)
  moreover have "index0 [] \<noteq> CHR ''#''"
    by (simp add: index0_def)
  ultimately show ?thesis
    using executeCommand_blank [of n hdr this w'] getlines_empty_line [of s]
      executeFile_loop_blank_lines [of n hdr this m counter w]
    by blast
qed

theorem executeFile_loop_empty_line_witness:
  "executeFile_loop 0 example_header (Console example_header ''> '') [[], ''quit''] 0 example_world
     = (Some (Quit example_header),
        example_world\<lparr>cout := ''[0] '' @ [NL, NL] @ ''[1] quit'' @ [NL]\<rparr>)
   \<and> executeFile 0 example_header (Console example_header ''> '') ''blank''
        (example_world\<lparr>files := [''blank'' \<mapsto> [NL]]\<rparr>)
     = (Some Ok,
        example_world\<lparr>cout := ''[0] '' @ [NL, NL], files := [''blank'' \<mapsto> [NL]],
                      opened := [''blank'']\<rparr>)"
proof -
  let ?c = "Console example_header ''> ''"
  let ?w = "example_world\<lparr>files := [''blank'' \<mapsto> [NL]]\<rparr>"
  have 1: "index0 ''quit'' \<noteq> CHR ''#''"
    by (simp add: index0_def)
  have 2: "files ?w ''blank'' = Some [NL]"
    by simp
  have q: "Quit example_header = - 1"
    by (simp add: example_header_def)
  have "executeFile_loop 0 example_header ?c [[], ''quit''] 0 example_world
      = (case executeCommand 0 example_header ?c ''quit''
                (example_world\<lparr>cout := cout example_world @ ''['' @ show_int 0 @ ''] '' @ [NL, NL]
                                @ ''['' @ show_int (0 + 1) @ ''] '' @ ''quit'' @ [NL]\<rparr>) of
           (None, w1) \<Rightarrow> (None, w1)
         | (Some result, w1) \<Rightarrow>
             if result \<noteq> Ok then (Some result, w1) else (Some Ok, print [NL] w1))"
    using executeFile_loop_empty_line [of 0 example_header ?c example_world "[]" 0 example_world
        "[]" 0 "''quit''" "''blank''"] 1
    by blast
  also have "\<dots> = (Some (Quit example_header),
         example_world\<lparr>cout := ''[0] '' @ [NL, NL] @ ''[1] quit'' @ [NL]\<rparr>)"
    by (simp add: example_quit show_int_0 show_int_1 Ok_def q example_world_def)
  finally have a: "executeFile_loop 0 example_header ?c [[], ''quit''] 0 example_world
      = (Some (Quit example_header),
         example_world\<lparr>cout := ''[0] '' @ [NL, NL] @ ''[1] quit'' @ [NL]\<rparr>)" .
  have "executeFile 0 example_header ?c ''blank'' ?w
      = (Some Ok, ?w\<lparr>cout := cout ?w @ ''[0] '' @ [NL, NL], opened := opened ?w @ [''blank'']\<rparr>)"
    using executeFile_loop_empty_line [of 0 example_header ?c example_world "[]" 0 ?w
        "[]" 0 "''quit''" "''blank''"] 2
    by blast
  also have "\<dots> = (Some Ok,
         example_world\<lparr>cout := ''[0] '' @ [NL, NL], files := [''blank'' \<mapsto> [NL]],
                      opened := [''blank'']\<rparr>)"
    by (simp add: example_world_def)
  finally have b: "executeFile 0 example_header ?c ''blank'' ?w
      = (Some Ok,
         example_world\<lparr>cout := ''[0] '' @ [NL, NL], files := [''blank'' \<mapsto> [NL]],
                      opened := [''blank'']\<rparr>)" .
  from a b show ?thesis
    by (rule conjI)
qed

end
